theory Spec2Isabelle
  imports Complex_Main
begin

section \<open>Data model of basic.py\<close>

text \<open>
  Characters are the code points of the Python string that lie below 256; a text
  is a list of them. The nine token kinds are the string constants
  \<^verbatim>\<open>TT_INT\<close> ... \<^verbatim>\<open>TT_EOF\<close> of the source, which are pairwise different.
\<close>

definition DIGITS :: string where
  "DIGITS = ''0123456789''"

datatype token_type =
  TT_INT | TT_FLOAT | TT_PLUS | TT_MINUS | TT_MUL | TT_DIV | TT_LPAREN | TT_RPAREN | TT_EOF

text \<open>
  The exceptions the interpreter raises in this program: reading an attribute that
  was never assigned, and \<^verbatim>\<open>int\<close>/\<^verbatim>\<open>float\<close> on a string that is no numeral.
\<close>

datatype exn = AttributeError | ValueError

record Position =
  idx :: int
  ln :: int
  col :: int
  fn :: string
  ftxt :: string

text \<open>
  \<^verbatim>\<open>Position.advance(current_char)\<close>. The argument is a character or \<^verbatim>\<open>None\<close>
  (the lexer before its first character, and the numeric or missing value that
  \<^verbatim>\<open>Token.__init__\<close> passes, none of which equals the newline character).
\<close>

definition Position_advance :: "Position \<Rightarrow> char option \<Rightarrow> Position" where
  "Position_advance self current_char =
     (let self = self\<lparr>idx := idx self + 1\<rparr>;
          self = self\<lparr>col := col self + 1\<rparr>
      in if current_char = Some (CHR 0x0A)
         then (let self = self\<lparr>col := 0\<rparr> in self\<lparr>ln := ln self + 1\<rparr>)
         else self)"

record Error =
  err_pos_start :: Position
  err_pos_end :: Position
  error_name :: string
  details :: string

definition IllegalCharError :: "Position \<Rightarrow> Position \<Rightarrow> string \<Rightarrow> Error" where
  "IllegalCharError ps pe detail =
     \<lparr>err_pos_start = ps, err_pos_end = pe, error_name = ''Illegal Character'', details = detail\<rparr>"

definition InvalidSyntaxError :: "Position \<Rightarrow> Position \<Rightarrow> string \<Rightarrow> Error" where
  "InvalidSyntaxError ps pe detail =
     \<lparr>err_pos_start = ps, err_pos_end = pe, error_name = ''Invalid Syntax'', details = detail\<rparr>"

text \<open>
  A token's number is an \<^verbatim>\<open>int\<close> or a \<^verbatim>\<open>float\<close>. A float is kept as the exact
  decimal fraction its literal denotes; the rounding of \<^verbatim>\<open>float()\<close> to a binary
  double is not part of the model.
\<close>

datatype number = IntV int | FloatV rat

text \<open>
  \<^verbatim>\<open>Token.__init__\<close> assigns \<^verbatim>\<open>pos_start\<close> and \<^verbatim>\<open>pos_end\<close> only inside its two
  \<^verbatim>\<open>if\<close> statements, so a token may lack either attribute: \<open>None\<close> below is
  "attribute not set", and reading it raises \<^verbatim>\<open>AttributeError\<close>.
\<close>

record Token =
  tok_type :: token_type
  tok_value :: "number option"
  pos_start :: "Position option"
  pos_end :: "Position option"

definition Token_init ::
  "token_type \<Rightarrow> number option \<Rightarrow> Position option \<Rightarrow> Position option \<Rightarrow> Token" where
  "Token_init type_0 value_0 pos_start_0 pos_end_0 =
     (let self = \<lparr>tok_type = type_0, tok_value = value_0, pos_start = None, pos_end = None\<rparr>;
          self = (case pos_start_0 of
                    None \<Rightarrow> self
                  | Some p \<Rightarrow> self\<lparr>pos_start := Some p, pos_end := Some (Position_advance p None)\<rparr>);
          self = (case pos_end_0 of
                    None \<Rightarrow> self
                  | Some p \<Rightarrow> self\<lparr>pos_end := Some p\<rparr>)
      in self)"

section \<open>Lexer\<close>

record Lexer =
  lex_fn :: string
  lex_text :: string
  pos :: Position
  current_char :: "char option"

text \<open>
  \<^verbatim>\<open>Lexer.advance\<close>. The index read is never negative: \<^verbatim>\<open>pos.idx\<close> starts at -1
  and is only ever incremented before the read.
\<close>

definition Lexer_advance :: "Lexer \<Rightarrow> Lexer" where
  "Lexer_advance self =
     (let p = Position_advance (pos self) (current_char self)
      in self\<lparr>pos := p,
              current_char :=
                (if idx p < int (length (lex_text self))
                 then Some (lex_text self ! nat (idx p))
                 else None)\<rparr>)"

definition Lexer_init :: "string \<Rightarrow> string \<Rightarrow> Lexer" where
  "Lexer_init fn_0 text_0 =
     Lexer_advance
       \<lparr>lex_fn = fn_0, lex_text = text_0,
        pos = \<lparr>idx = -1, ln = 0, col = -1, fn = fn_0, ftxt = text_0\<rparr>,
        current_char = None\<rparr>"

text \<open>
  \<^verbatim>\<open>int(num_str)\<close> and \<^verbatim>\<open>float(num_str)\<close> on the strings \<^verbatim>\<open>make_number\<close> builds:
  decimal digits with at most one dot. A string with no digit raises
  \<^verbatim>\<open>ValueError\<close>. (The interpreter's optional limit on the number of digits of
  an integer literal is not modelled.)
\<close>

definition digit_val :: "char \<Rightarrow> int" where
  "digit_val c = int (of_char c) - 48"

definition dec_val :: "string \<Rightarrow> int" where
  "dec_val s = foldl (\<lambda>a c. 10 * a + digit_val c) 0 s"

definition py_int :: "string \<Rightarrow> exn + int" where
  "py_int s = (if s \<noteq> [] \<and> set s \<subseteq> set DIGITS then Inr (dec_val s) else Inl ValueError)"

definition py_float :: "string \<Rightarrow> exn + rat" where
  "py_float s =
     (let a = takeWhile (\<lambda>c. c \<noteq> CHR ''.'') s;
          b = drop (length a + 1) s
      in if set a \<subseteq> set DIGITS \<and> set b \<subseteq> set DIGITS \<and> (a \<noteq> [] \<or> b \<noteq> [])
         then Inr (of_int (dec_val a) + of_int (dec_val b) / 10 ^ length b)
         else Inl ValueError)"

text \<open>
  The loops of the lexer consume one character per round; this is the number of
  rounds still possible.
\<close>

definition chars_left :: "Lexer \<Rightarrow> nat" where
  "chars_left self =
     (case current_char self of
        None \<Rightarrow> 0
      | Some c \<Rightarrow> Suc (nat (int (length (lex_text self)) - idx (pos self))))"

lemma chars_left_advance:
  "current_char self = Some c \<Longrightarrow> chars_left (Lexer_advance self) < chars_left self"
  by (auto simp: chars_left_def Lexer_advance_def Position_advance_def Let_def)

text \<open>The \<^verbatim>\<open>while\<close> loop of \<^verbatim>\<open>make_number\<close>, on the lexer and the two locals.\<close>

function make_number_loop :: "Lexer \<Rightarrow> string \<Rightarrow> nat \<Rightarrow> Lexer \<times> string \<times> nat" where
  "make_number_loop self num_str dot_count =
     (case current_char self of
        None \<Rightarrow> (self, num_str, dot_count)
      | Some c \<Rightarrow>
          if c \<in> set (DIGITS @ ''.'') then
            (if c = CHR ''.'' then
               (if dot_count = 1 then (self, num_str, dot_count)
                else make_number_loop (Lexer_advance self) (num_str @ ''.'') (dot_count + 1))
             else make_number_loop (Lexer_advance self) (num_str @ [c]) dot_count)
          else (self, num_str, dot_count))"
  by pat_completeness auto
termination
  by (relation "measure (\<lambda>(self, num_str, dot_count). chars_left self)")
     (auto simp: chars_left_advance)

declare make_number_loop.simps [simp del]

definition make_number :: "Lexer \<Rightarrow> exn + (Token \<times> Lexer)" where
  "make_number self =
     (case make_number_loop self [] 0 of
        (self', num_str, dot_count) \<Rightarrow>
          if dot_count = 0 then
            (case py_int num_str of
               Inl e \<Rightarrow> Inl e
             | Inr n \<Rightarrow> Inr (Token_init TT_INT (Some (IntV n)) None None, self'))
          else
            (case py_float num_str of
               Inl e \<Rightarrow> Inl e
             | Inr x \<Rightarrow> Inr (Token_init TT_FLOAT (Some (FloatV x)) None None, self')))"

text \<open>
  Whenever \<^verbatim>\<open>make_tokens\<close> calls \<^verbatim>\<open>make_number\<close> the current character is a
  digit, so the scan consumes it: the outer loop makes progress.
\<close>

lemma make_number_loop_chars_left:
  "make_number_loop self num_str dot_count = (self', r) \<Longrightarrow> chars_left self' \<le> chars_left self"
proof (induction self num_str dot_count arbitrary: self' r rule: make_number_loop.induct)
  case (1 self num_str dot_count)
  show ?case
  proof (cases "current_char self")
    case None
    with "1.prems" show ?thesis by (simp add: make_number_loop.simps [of self])
  next
    case (Some c)
    note unfold = make_number_loop.simps [of self num_str dot_count]
    have adv: "chars_left (Lexer_advance self) < chars_left self"
      using Some by (rule chars_left_advance)
    consider (stop) "c \<notin> set (DIGITS @ ''.'') \<or> (c = CHR ''.'' \<and> dot_count = 1)"
      | (dot) "c \<in> set (DIGITS @ ''.'')" "c = CHR ''.''" "dot_count \<noteq> 1"
      | (digit) "c \<in> set (DIGITS @ ''.'')" "c \<noteq> CHR ''.''"
      by blast
    then show ?thesis
    proof cases
      case stop
      with "1.prems" Some show ?thesis by (auto simp: unfold)
    next
      case dot
      with "1.prems" Some
      have "make_number_loop (Lexer_advance self) (num_str @ ''.'') (dot_count + 1) = (self', r)"
        by (simp add: unfold)
      from "1.IH"(1) [OF Some dot this] adv show ?thesis by simp
    next
      case digit
      with "1.prems" Some
      have "make_number_loop (Lexer_advance self) (num_str @ [c]) dot_count = (self', r)"
        by (simp add: unfold)
      from "1.IH"(2) [OF Some digit this] adv show ?thesis by simp
    qed
  qed
qed

lemma make_number_chars_left:
  assumes "current_char self = Some c" and "c \<in> set DIGITS"
    and "make_number self = Inr (tok, self')"
  shows "chars_left self' < chars_left self"
proof -
  have c: "c \<in> set (DIGITS @ ''.'')" "c \<noteq> CHR ''.''"
    using assms(2) by (auto simp: DIGITS_def)
  obtain r where r: "make_number_loop self [] 0 = (self', r)"
    using assms(3) by (auto simp: make_number_def split: prod.splits if_splits sum.splits)
  have "make_number_loop self [] 0 = make_number_loop (Lexer_advance self) [c] 0"
    using assms(1) c by (simp add: make_number_loop.simps [of self])
  with r have "chars_left self' \<le> chars_left (Lexer_advance self)"
    by (simp add: make_number_loop_chars_left)
  with chars_left_advance [OF assms(1)] show ?thesis by simp
qed

text \<open>
  The \<^verbatim>\<open>while\<close> loop of \<^verbatim>\<open>make_tokens\<close>, on the lexer and the local \<^verbatim>\<open>tokens\<close>.
  The result is the returned pair; an exception of \<^verbatim>\<open>make_number\<close> passes through.
\<close>

function make_tokens_loop :: "Lexer \<Rightarrow> Token list \<Rightarrow> exn + (Token list \<times> Error option)" where
  "make_tokens_loop self tokens =
     (case current_char self of
        None \<Rightarrow> Inr (tokens @ [Token_init TT_EOF None (Some (pos self)) None], None)
      | Some c \<Rightarrow>
          if c = CHR '' '' \<or> c = CHR 0x09 then
            make_tokens_loop (Lexer_advance self) tokens
          else if c \<in> set DIGITS then
            (case make_number self of
               Inl e \<Rightarrow> Inl e
             | Inr (tok, self') \<Rightarrow> make_tokens_loop self' (tokens @ [tok]))
          else if c = CHR ''+'' then
            make_tokens_loop (Lexer_advance self)
              (tokens @ [Token_init TT_PLUS None (Some (pos self)) None])
          else if c = CHR ''-'' then
            make_tokens_loop (Lexer_advance self)
              (tokens @ [Token_init TT_MINUS None (Some (pos self)) None])
          else if c = CHR ''*'' then
            make_tokens_loop (Lexer_advance self)
              (tokens @ [Token_init TT_MUL None (Some (pos self)) None])
          else if c = CHR ''/'' then
            make_tokens_loop (Lexer_advance self)
              (tokens @ [Token_init TT_DIV None (Some (pos self)) None])
          else if c = CHR ''('' then
            make_tokens_loop (Lexer_advance self)
              (tokens @ [Token_init TT_LPAREN None (Some (pos self)) None])
          else if c = CHR '')'' then
            make_tokens_loop (Lexer_advance self)
              (tokens @ [Token_init TT_RPAREN None (Some (pos self)) None])
          else
            (let pos_start_0 = pos self;
                 char = c;
                 self = Lexer_advance self
             in Inr ([], Some (IllegalCharError pos_start_0 (pos self) ([CHR 0x27] @ [char] @ [CHR 0x27])))))"
  by pat_completeness (erule Pair_inject, hypsubst, rule refl)
termination
  by (relation "measure (\<lambda>(self, tokens). chars_left self)")
     (auto simp: chars_left_advance make_number_chars_left)

declare make_tokens_loop.simps [simp del]

definition make_tokens :: "Lexer \<Rightarrow> exn + (Token list \<times> Error option)" where
  "make_tokens self = make_tokens_loop self []"

text \<open>The lexing half of \<^verbatim>\<open>run\<close>: build the lexer and tokenize.\<close>

definition tokenize :: "string \<Rightarrow> string \<Rightarrow> exn + (Token list \<times> Error option)" where
  "tokenize fn_0 text_0 = make_tokens (Lexer_init fn_0 text_0)"

section \<open>Syntax tree and result carrier\<close>

text \<open>
  A child of a node is whatever \<^verbatim>\<open>register\<close> returned, which is \<^verbatim>\<open>None\<close> when the
  sub-result had no node.
\<close>

datatype node =
  NumberNode Token
| UnaryOpNode Token "node option"
| BinOpNode "node option" Token "node option"

record ParserResult =
  error :: "Error option"
  node :: "node option"

definition ParserResult_init :: ParserResult where
  "ParserResult_init = \<lparr>error = None, node = None\<rparr>"

definition success :: "ParserResult \<Rightarrow> node option \<Rightarrow> ParserResult" where
  "success self node_0 = self\<lparr>node := node_0\<rparr>"

definition failure :: "ParserResult \<Rightarrow> Error \<Rightarrow> ParserResult" where
  "failure self error_0 = self\<lparr>error := Some error_0\<rparr>"

text \<open>
  \<^verbatim>\<open>register\<close> on a \<^verbatim>\<open>ParserResult\<close>: the updated carrier and the returned node.
  (On a token, as returned by \<^verbatim>\<open>advance\<close>, it changes nothing and is left out below.)
\<close>

definition register :: "ParserResult \<Rightarrow> ParserResult \<Rightarrow> ParserResult \<times> node option" where
  "register self res =
     ((if error res \<noteq> None then self\<lparr>error := error res\<rparr> else self), node res)"

section \<open>Parser\<close>

text \<open>
  \<open>current_tok = None\<close> is the attribute before its first assignment. As in the
  lexer, the index read is never negative: \<^verbatim>\<open>tok_idx\<close> starts at -1 and is
  incremented before the read.
\<close>

record Parser =
  tokens :: "Token list"
  tok_idx :: int
  current_tok :: "Token option"

definition Parser_advance :: "Parser \<Rightarrow> exn + (Token \<times> Parser)" where
  "Parser_advance self =
     (let self = self\<lparr>tok_idx := tok_idx self + 1\<rparr>;
          self = (if tok_idx self < int (length (tokens self))
                  then self\<lparr>current_tok := Some (tokens self ! nat (tok_idx self))\<rparr>
                  else self)
      in case current_tok self of
           None \<Rightarrow> Inl AttributeError
         | Some tok \<Rightarrow> Inr (tok, self))"

definition Parser_init :: "Token list \<Rightarrow> exn + Parser" where
  "Parser_init tokens_0 =
     (case Parser_advance \<lparr>tokens = tokens_0, tok_idx = -1, current_tok = None\<rparr> of
        Inl e \<Rightarrow> Inl e
      | Inr (tok, self) \<Rightarrow> Inr self)"


text \<open>
  \<^verbatim>\<open>InvalidSyntaxError(tok.pos_start, tok.pos_end, detail)\<close>: reading a position
  attribute the token does not have raises.
\<close>

definition syntax_error_at :: "Token \<Rightarrow> string \<Rightarrow> exn + Error" where
  "syntax_error_at tok detail =
     (case pos_start tok of
        None \<Rightarrow> Inl AttributeError
      | Some ps \<Rightarrow>
          (case pos_end tok of
             None \<Rightarrow> Inl AttributeError
           | Some pe \<Rightarrow> Inr (InvalidSyntaxError ps pe detail)))"

text \<open>Which bound method \<^verbatim>\<open>bin_op\<close> was handed as \<^verbatim>\<open>func\<close>.\<close>

datatype rule = Factor | Term

text \<open>
  The grammar rules. They recurse through each other and \<^verbatim>\<open>bin_op\<close> loops, and on
  a token list without a final EOF token neither need stop, so every call and every
  loop round takes one unit of fuel: \<open>None\<close> is "fuel used up", \<open>Some (Inl e)\<close> a
  raised exception, \<open>Some (Inr (res, self))\<close> the returned carrier and the parser
  after the call. \<open>term_rule\<close> is the method \<^verbatim>\<open>term\<close>.
\<close>

fun factor :: "nat \<Rightarrow> Parser \<Rightarrow> (exn + ParserResult \<times> Parser) option"
  and term_rule :: "nat \<Rightarrow> Parser \<Rightarrow> (exn + ParserResult \<times> Parser) option"
  and expr :: "nat \<Rightarrow> Parser \<Rightarrow> (exn + ParserResult \<times> Parser) option"
  and bin_op :: "nat \<Rightarrow> rule \<Rightarrow> token_type list \<Rightarrow> Parser \<Rightarrow> (exn + ParserResult \<times> Parser) option"
  and bin_op_loop ::
    "nat \<Rightarrow> rule \<Rightarrow> token_type list \<Rightarrow> ParserResult \<Rightarrow> node option \<Rightarrow> Parser
       \<Rightarrow> (exn + ParserResult \<times> Parser) option"
where
  "factor 0 self = None"
| "factor (Suc n) self =
     (let res = ParserResult_init in
      case current_tok self of
        None \<Rightarrow> Some (Inl AttributeError)
      | Some tok \<Rightarrow>
          if tok_type tok \<in> {TT_INT, TT_FLOAT} then
            (case Parser_advance self of
               Inl e \<Rightarrow> Some (Inl e)
             | Inr (t, self) \<Rightarrow> Some (Inr (success res (Some (NumberNode tok)), self)))
          else if tok_type tok \<in> {TT_PLUS, TT_MINUS} then
            (case Parser_advance self of
               Inl e \<Rightarrow> Some (Inl e)
             | Inr (t, self) \<Rightarrow>
                 (case factor n self of
                    None \<Rightarrow> None
                  | Some (Inl e) \<Rightarrow> Some (Inl e)
                  | Some (Inr (r, self)) \<Rightarrow>
                      (case register res r of
                         (res, factor_0) \<Rightarrow>
                           if error res \<noteq> None then Some (Inr (res, self))
                           else Some (Inr (success res (Some (UnaryOpNode tok factor_0)), self)))))
          else if tok_type tok = TT_LPAREN then
            (case Parser_advance self of
               Inl e \<Rightarrow> Some (Inl e)
             | Inr (t, self) \<Rightarrow>
                 (case expr n self of
                    None \<Rightarrow> None
                  | Some (Inl e) \<Rightarrow> Some (Inl e)
                  | Some (Inr (r, self)) \<Rightarrow>
                      (case register res r of
                         (res, expr_0) \<Rightarrow>
                           if error res \<noteq> None then Some (Inr (res, self))
                           else
                             (case current_tok self of
                                None \<Rightarrow> Some (Inl AttributeError)
                              | Some cur \<Rightarrow>
                                  if tok_type cur = TT_RPAREN then
                                    (case Parser_advance self of
                                       Inl e \<Rightarrow> Some (Inl e)
                                     | Inr (t, self) \<Rightarrow> Some (Inr (success res expr_0, self)))
                                  else
                                    (case syntax_error_at cur ''Expected ')' '' of
                                       Inl e \<Rightarrow> Some (Inl e)
                                     | Inr err \<Rightarrow> Some (Inr (failure res err, self)))))))
          else
            (case syntax_error_at tok ''Expected int or float '' of
               Inl e \<Rightarrow> Some (Inl e)
             | Inr err \<Rightarrow> Some (Inr (failure res err, self))))"
| "term_rule 0 self = None"
| "term_rule (Suc n) self = bin_op n Factor [TT_MUL, TT_DIV] self"
| "expr 0 self = None"
| "expr (Suc n) self = bin_op n Term [TT_PLUS, TT_MINUS] self"
| "bin_op 0 func ops self = None"
| "bin_op (Suc n) func ops self =
     (let res = ParserResult_init in
      case (case func of Factor \<Rightarrow> factor n self | Term \<Rightarrow> term_rule n self) of
        None \<Rightarrow> None
      | Some (Inl e) \<Rightarrow> Some (Inl e)
      | Some (Inr (r, self)) \<Rightarrow>
          (case register res r of
             (res, left) \<Rightarrow> bin_op_loop n func ops res left self))"
| "bin_op_loop 0 func ops res left self = None"
| "bin_op_loop (Suc n) func ops res left self =
     (case current_tok self of
        None \<Rightarrow> Some (Inl AttributeError)
      | Some op_tok \<Rightarrow>
          if tok_type op_tok \<in> set ops then
            (case Parser_advance self of
               Inl e \<Rightarrow> Some (Inl e)
             | Inr (t, self) \<Rightarrow>
                 (case (case func of Factor \<Rightarrow> factor n self | Term \<Rightarrow> term_rule n self) of
                    None \<Rightarrow> None
                  | Some (Inl e) \<Rightarrow> Some (Inl e)
                  | Some (Inr (r, self)) \<Rightarrow>
                      (case register res r of
                         (res, right) \<Rightarrow>
                           bin_op_loop n func ops res (Some (BinOpNode left op_tok right)) self)))
          else Some (Inr (success res left, self)))"

definition parse :: "nat \<Rightarrow> Parser \<Rightarrow> (exn + ParserResult \<times> Parser) option" where
  "parse fuel self =
     (case expr fuel self of
        None \<Rightarrow> None
      | Some (Inl e) \<Rightarrow> Some (Inl e)
      | Some (Inr (res, self)) \<Rightarrow>
          if error res = None then
            (case current_tok self of
               None \<Rightarrow> Some (Inl AttributeError)
             | Some cur \<Rightarrow>
                 if tok_type cur \<noteq> TT_EOF then
                   (case syntax_error_at cur ''Expected '+' '-' '*' or '/' '' of
                      Inl e \<Rightarrow> Some (Inl e)
                    | Inr err \<Rightarrow> Some (Inr (failure res err, self)))
                 else Some (Inr (res, self)))
          else Some (Inr (res, self)))"

section \<open>The entry point\<close>

text \<open>
  \<^verbatim>\<open>run(fn, text)\<close>, with the fuel handed to the parser. The local \<^verbatim>\<open>error\<close> that
  \<^verbatim>\<open>make_tokens\<close> returned is not read again; printing the tokens has no effect on
  the result.
\<close>

definition run :: "nat \<Rightarrow> string \<Rightarrow> string \<Rightarrow> (exn + node option \<times> Error option) option" where
  "run fuel fn_0 text_0 =
     (let lexer = Lexer_init fn_0 text_0 in
      case make_tokens lexer of
        Inl e \<Rightarrow> Some (Inl e)
      | Inr (tokens_0, error_0) \<Rightarrow>
          (case Parser_init tokens_0 of
             Inl e \<Rightarrow> Some (Inl e)
           | Inr parser \<Rightarrow>
               (case parse fuel parser of
                  None \<Rightarrow> None
                | Some (Inl e) \<Rightarrow> Some (Inl e)
                | Some (Inr (ast, parser)) \<Rightarrow> Some (Inr (node ast, error ast)))))"

section \<open>Lexer states on the first line\<close>

text \<open>
  Until a newline is consumed the cursor is on line 0 with the column equal to the
  index. \<open>lexer_at fn text i\<close> is the lexer of \<^verbatim>\<open>Lexer(fn, text)\<close> after \<open>i\<close> such
  characters. (A newline is not accepted by \<^verbatim>\<open>make_tokens\<close>, so these are all the
  states in which its loop continues.)
\<close>

definition position_at :: "string \<Rightarrow> string \<Rightarrow> nat \<Rightarrow> Position" where
  "position_at fn_0 text_0 i = \<lparr>idx = int i, ln = 0, col = int i, fn = fn_0, ftxt = text_0\<rparr>"

definition lexer_at :: "string \<Rightarrow> string \<Rightarrow> nat \<Rightarrow> Lexer" where
  "lexer_at fn_0 text_0 i =
     \<lparr>lex_fn = fn_0, lex_text = text_0, pos = position_at fn_0 text_0 i,
      current_char = (if i < length text_0 then Some (text_0 ! i) else None)\<rparr>"

lemma Lexer_init_at: "Lexer_init fn_0 text_0 = lexer_at fn_0 text_0 0"
  by (simp add: Lexer_init_def Lexer_advance_def Position_advance_def lexer_at_def position_at_def)

lemma Lexer_advance_at:
  "i < length text_0 \<Longrightarrow> text_0 ! i \<noteq> CHR 0x0A \<Longrightarrow>
   Lexer_advance (lexer_at fn_0 text_0 i) = lexer_at fn_0 text_0 (Suc i)"
  by (simp add: Lexer_advance_def Position_advance_def lexer_at_def position_at_def Let_def
      nat_add_distrib)

lemma current_char_at [simp]:
  "current_char (lexer_at fn_0 text_0 i) = (if i < length text_0 then Some (text_0 ! i) else None)"
  by (simp add: lexer_at_def)

lemma pos_at [simp]: "pos (lexer_at fn_0 text_0 i) = position_at fn_0 text_0 i"
  by (simp add: lexer_at_def)







lemma tokens_loop_end:
  "make_tokens_loop (lexer_at fn_0 text_0 (length text_0)) acc
     = Inr (acc @ [Token_init TT_EOF None (Some (position_at fn_0 text_0 (length text_0))) None], None)"
  by (simp add: make_tokens_loop.simps [of "lexer_at fn_0 text_0 (length text_0)"])

lemma tokens_loop_blank:
  "i < length text_0 \<Longrightarrow> text_0 ! i = CHR '' '' \<or> text_0 ! i = CHR 0x09 \<Longrightarrow>
   make_tokens_loop (lexer_at fn_0 text_0 i) acc = make_tokens_loop (lexer_at fn_0 text_0 (Suc i)) acc"
  by (auto simp add: make_tokens_loop.simps [of "lexer_at fn_0 text_0 i"] Lexer_advance_at)

lemma tokens_loop_blanks:
  "set ws \<subseteq> {CHR '' '', CHR 0x09} \<Longrightarrow> text_0 = pre @ ws @ post \<Longrightarrow>
   make_tokens_loop (lexer_at fn_0 text_0 (length pre)) acc
     = make_tokens_loop (lexer_at fn_0 text_0 (length pre + length ws)) acc"
proof (induction ws arbitrary: pre)
  case Nil
  then show ?case by simp
next
  case (Cons c ws)
  have "make_tokens_loop (lexer_at fn_0 text_0 (length pre)) acc
          = make_tokens_loop (lexer_at fn_0 text_0 (Suc (length pre))) acc"
    using Cons.prems tokens_loop_blank [of "length pre" text_0 fn_0 acc] by simp
  also have "\<dots> = make_tokens_loop (lexer_at fn_0 text_0 (length (pre @ [c]) + length ws)) acc"
    using Cons.IH [of "pre @ [c]"] Cons.prems by simp
  finally show ?case by simp
qed







lemma tokens_loop_error_empty:
  "make_tokens_loop self acc = Inr (toks, Some e) \<Longrightarrow> toks = []"
proof (induction self acc rule: make_tokens_loop.induct)
  case (1 self tokens_0)
  note unfold = make_tokens_loop.simps [of self tokens_0]
  show ?case
  proof (cases "current_char self")
    case None
    with "1.prems" show ?thesis by (simp add: unfold)
  next
    case (Some c)
    show ?thesis
      using "1.prems" "1.IH" Some
      by (simp add: unfold Let_def split: if_splits sum.splits prod.splits)
  qed
qed

lemma Parser_init_empty: "Parser_init [] = Inl AttributeError"
  by (simp add: Parser_init_def Parser_advance_def)

lemma parse_only_eof:
  assumes "tok_type t = TT_EOF" and "pos_start t = Some ps" and "pos_end t = Some pe"
  shows "parse (5 + k) \<lparr>tokens = [t], tok_idx = 0, current_tok = Some t\<rparr>
           = Some (Inr (\<lparr>error = Some (InvalidSyntaxError ps pe ''Expected int or float ''),
                         node = None\<rparr>,
                        \<lparr>tokens = [t], tok_idx = 0, current_tok = Some t\<rparr>))"
proof -
  have "5 + k = Suc (Suc (Suc (Suc (Suc k))))" by simp
  show ?thesis
    unfolding \<open>5 + k = _\<close> using assms
    by (simp add: parse_def syntax_error_at_def register_def success_def failure_def
        ParserResult_init_def)
qed

section \<open>Claims\<close>



text \<open>
  C1. The claim: whenever tokenizing returns an error, \<^verbatim>\<open>run\<close> returns no node
  together with that error, without raising and without invoking the parser. The
  code: \<^verbatim>\<open>run\<close> never reads the error. It hands the empty token list to
  \<^verbatim>\<open>Parser\<close>, whose \<^verbatim>\<open>__init__\<close> calls \<^verbatim>\<open>advance\<close>, which returns the attribute
  \<^verbatim>\<open>current_tok\<close> that was never assigned: on every input with a lexing error,
  whatever the fuel, \<^verbatim>\<open>run\<close> raises \<^verbatim>\<open>AttributeError\<close>.
\<close>

theorem run_raises_after_lexing_error:
  assumes "tokenize fn_0 text_0 = Inr (toks, Some e)"
  shows "run fuel fn_0 text_0 = Some (Inl AttributeError)"
proof -
  have "toks = []"
    using assms tokens_loop_error_empty by (simp add: tokenize_def make_tokens_def)
  with assms show ?thesis
    by (simp add: run_def tokenize_def Parser_init_empty)
qed

theorem run_raises_after_lexing_error_witness:
  "tokenize ''<stdin>'' ''a''
     = Inr ([], Some (IllegalCharError
                        \<lparr>idx = 0, ln = 0, col = 0, fn = ''<stdin>'', ftxt = ''a''\<rparr>
                        \<lparr>idx = 1, ln = 0, col = 1, fn = ''<stdin>'', ftxt = ''a''\<rparr>
                        [CHR 0x27, CHR ''a'', CHR 0x27]))
   \<and> run 10 ''<stdin>'' ''a'' = Some (Inl AttributeError)"
proof -
  have h: "tokenize ''<stdin>'' ''a''
     = Inr ([], Some (IllegalCharError
                        \<lparr>idx = 0, ln = 0, col = 0, fn = ''<stdin>'', ftxt = ''a''\<rparr>
                        \<lparr>idx = 1, ln = 0, col = 1, fn = ''<stdin>'', ftxt = ''a''\<rparr>
                        [CHR 0x27, CHR ''a'', CHR 0x27]))"
    by code_simp
  show ?thesis
    using h run_raises_after_lexing_error [OF h, of 10] by simp
qed

text \<open>
  C2. The claim: on a complete expression followed by extra tokens, as in
  \<^verbatim>\<open>1 + 2 3\<close>, \<^verbatim>\<open>parse\<close> returns an Invalid Syntax error positioned at the first
  unexpected token. The code: that token is the INT token of \<^verbatim>\<open>3\<close>, which
  \<^verbatim>\<open>make_number\<close> built without positions, so building the error reads a missing
  attribute and \<^verbatim>\<open>run\<close> raises \<^verbatim>\<open>AttributeError\<close> (with any fuel from 7 on; less
  fuel does not finish the parse).
\<close>

theorem trailing_number_raises:
  "run (7 + k) fn_0 ''1 + 2 3'' = Some (Inl AttributeError)"
proof -
  have "7 + k = Suc (Suc (Suc (Suc (Suc (Suc (Suc k))))))" by simp
  show ?thesis unfolding \<open>7 + k = _\<close> by code_simp
qed

text \<open>
  C3. The claim: the first error of a parse is never overwritten, and a rule returns
  at once after registering a sub-result with an error. The code on \<^verbatim>\<open>*\<close>:
  \<^verbatim>\<open>factor\<close> fails on the MUL token with an error positioned at index 0;
  \<^verbatim>\<open>bin_op\<close> registers it and goes on, consumes the MUL token as an operator,
  calls \<^verbatim>\<open>factor\<close> again, which fails on EOF, and registers that second error
  over the first. \<^verbatim>\<open>run\<close> returns a BinOpNode without children together with
  the error positioned at index 1.
\<close>

theorem bin_op_overwrites_first_error:
  "(let mul_tok = \<lparr>tok_type = TT_MUL, tok_value = None,
                    pos_start = Some (position_at fn_0 ''*'' 0),
                    pos_end = Some (position_at fn_0 ''*'' 1)\<rparr>;
        eof_tok = \<lparr>tok_type = TT_EOF, tok_value = None,
                    pos_start = Some (position_at fn_0 ''*'' 1),
                    pos_end = Some (position_at fn_0 ''*'' 2)\<rparr>;
        parser = \<lparr>tokens = [mul_tok, eof_tok], tok_idx = 0, current_tok = Some mul_tok\<rparr>
    in tokenize fn_0 ''*'' = Inr ([mul_tok, eof_tok], None)
     \<and> Parser_init [mul_tok, eof_tok] = Inr parser
     \<and> factor (1 + k) parser
         = Some (Inr (\<lparr>error = Some (InvalidSyntaxError (position_at fn_0 ''*'' 0)
                                         (position_at fn_0 ''*'' 1) ''Expected int or float ''),
                       node = None\<rparr>, parser))
     \<and> run (6 + k) fn_0 ''*''
         = Some (Inr (Some (BinOpNode None mul_tok None),
                      Some (InvalidSyntaxError (position_at fn_0 ''*'' 1)
                              (position_at fn_0 ''*'' 2) ''Expected int or float ''))))"
proof -
  have "1 + k = Suc k" "6 + k = Suc (Suc (Suc (Suc (Suc (Suc k)))))" by simp_all
  show ?thesis unfolding \<open>1 + k = _\<close> \<open>6 + k = _\<close> by code_simp
qed

text \<open>
  C4. The claim: every number token carries a start and an end position. The code:
  \<^verbatim>\<open>make_number\<close> calls \<^verbatim>\<open>Token(TT_INT, int(num_str))\<close> with neither position, so
  the token of \<^verbatim>\<open>12\<close> has neither attribute, while the EOF token after it has both.
\<close>

theorem number_token_without_positions:
  "tokenize fn_0 ''12''
     = Inr ([\<lparr>tok_type = TT_INT, tok_value = Some (IntV 12), pos_start = None, pos_end = None\<rparr>,
             \<lparr>tok_type = TT_EOF, tok_value = None,
              pos_start = Some (position_at fn_0 ''12'' 2),
              pos_end = Some (position_at fn_0 ''12'' 3)\<rparr>], None)"
  by code_simp

text \<open>
  C8. Running \<^verbatim>\<open>2 + 3 * 4\<close> (with any fuel from 7 on) returns no error and the tree
  BinOp(Number 2, PLUS, BinOp(Number 3, MUL, Number 4)): the multiplication is the
  right child of the addition.
\<close>

theorem precedence_tree:
  "run (7 + k) fn_0 ''2 + 3 * 4''
     = Some (Inr (Some (BinOpNode
                    (Some (NumberNode \<lparr>tok_type = TT_INT, tok_value = Some (IntV 2),
                                        pos_start = None, pos_end = None\<rparr>))
                    \<lparr>tok_type = TT_PLUS, tok_value = None,
                     pos_start = Some (position_at fn_0 ''2 + 3 * 4'' 2),
                     pos_end = Some (position_at fn_0 ''2 + 3 * 4'' 3)\<rparr>
                    (Some (BinOpNode
                       (Some (NumberNode \<lparr>tok_type = TT_INT, tok_value = Some (IntV 3),
                                           pos_start = None, pos_end = None\<rparr>))
                       \<lparr>tok_type = TT_MUL, tok_value = None,
                        pos_start = Some (position_at fn_0 ''2 + 3 * 4'' 6),
                        pos_end = Some (position_at fn_0 ''2 + 3 * 4'' 7)\<rparr>
                       (Some (NumberNode \<lparr>tok_type = TT_INT, tok_value = Some (IntV 4),
                                           pos_start = None, pos_end = None\<rparr>))))),
                  None))"
proof -
  have "7 + k = Suc (Suc (Suc (Suc (Suc (Suc (Suc k))))))" by simp
  show ?thesis unfolding \<open>7 + k = _\<close> by code_simp
qed

text \<open>
  C5. The claim: a second dot ends the number without being consumed and without
  error, so \<^verbatim>\<open>1.2.3\<close> lexes as FLOAT 1.2 followed by a number starting at \<^verbatim>\<open>.3\<close>,
  with no error. The first half holds: at a dot with \<open>dot_count = 1\<close> the loop of
  \<^verbatim>\<open>make_number\<close> returns at once with the lexer unchanged, and on \<^verbatim>\<open>1.2.3\<close> it
  returns FLOAT 1.2 with the cursor on the second dot (index 3). But
  \<^verbatim>\<open>make_tokens\<close> starts a number on a digit only, so it then rejects that dot:
  the result is no token and an Illegal Character error for the dot at index 3.
\<close>

theorem second_dot_counterexample:
  "tokenize ''<stdin>'' ''1.2.3''
     = Inr ([], Some \<lparr>err_pos_start = \<lparr>idx = 3, ln = 0, col = 3, fn = ''<stdin>'', ftxt = ''1.2.3''\<rparr>,
                      err_pos_end = \<lparr>idx = 4, ln = 0, col = 4, fn = ''<stdin>'', ftxt = ''1.2.3''\<rparr>,
                      error_name = ''Illegal Character'',
                      details = [CHR 0x27, CHR ''.'', CHR 0x27]\<rparr>)"
  by code_simp

text \<open>
  C5 as amended: the second dot ends the number unconsumed, \<^verbatim>\<open>make_number\<close> returns
  FLOAT 1.2 with the cursor on that dot, and tokenizing \<^verbatim>\<open>1.2.3\<close> returns an empty
  token list with an Illegal Character error spanning index 3 to 4.
\<close>

theorem second_dot_is_illegal:
  "make_number_loop (self\<lparr>current_char := Some (CHR ''.'')\<rparr>) num_str 1
     = (self\<lparr>current_char := Some (CHR ''.'')\<rparr>, num_str, 1)
   \<and> make_number (Lexer_init fn_0 ''1.2.3'')
     = Inr (\<lparr>tok_type = TT_FLOAT, tok_value = Some (FloatV (6 / 5)),
             pos_start = None, pos_end = None\<rparr>,
            lexer_at fn_0 ''1.2.3'' 3)
   \<and> current_char (lexer_at fn_0 ''1.2.3'' 3) = Some (CHR ''.'')
   \<and> tokenize fn_0 ''1.2.3''
     = Inr ([], Some (IllegalCharError (position_at fn_0 ''1.2.3'' 3) (position_at fn_0 ''1.2.3'' 4)
                        [CHR 0x27, CHR ''.'', CHR 0x27]))"
proof (intro conjI)
  show "make_number_loop (self\<lparr>current_char := Some (CHR ''.'')\<rparr>) num_str 1
     = (self\<lparr>current_char := Some (CHR ''.'')\<rparr>, num_str, 1)"
    by (simp add: make_number_loop.simps [of "self\<lparr>current_char := Some (CHR ''.'')\<rparr>"])
  show "make_number (Lexer_init fn_0 ''1.2.3'')
     = Inr (\<lparr>tok_type = TT_FLOAT, tok_value = Some (FloatV (6 / 5)),
             pos_start = None, pos_end = None\<rparr>,
            lexer_at fn_0 ''1.2.3'' 3)"
    by code_simp
  show "current_char (lexer_at fn_0 ''1.2.3'' 3) = Some (CHR ''.'')"
    by simp
  show "tokenize fn_0 ''1.2.3''
     = Inr ([], Some (IllegalCharError (position_at fn_0 ''1.2.3'' 3) (position_at fn_0 ''1.2.3'' 4)
                        [CHR 0x27, CHR ''.'', CHR 0x27]))"
    by code_simp
qed



text \<open>
  C10. For the empty string and every string of spaces and tabs, tokenizing returns
  exactly the EOF token and no error, and \<^verbatim>\<open>run\<close> (with any fuel from 5 on) returns
  no node together with the Invalid Syntax error "Expected int or float " positioned
  at that EOF token.
\<close>

theorem blank_input:
  assumes "set text_0 \<subseteq> {CHR '' '', CHR 0x09}"
  shows "tokenize fn_0 text_0
           = Inr ([\<lparr>tok_type = TT_EOF, tok_value = None,
                    pos_start = Some (position_at fn_0 text_0 (length text_0)),
                    pos_end = Some (position_at fn_0 text_0 (length text_0 + 1))\<rparr>], None)
       \<and> run (5 + k) fn_0 text_0
           = Some (Inr (None,
                        Some (InvalidSyntaxError (position_at fn_0 text_0 (length text_0))
                                (position_at fn_0 text_0 (length text_0 + 1))
                                ''Expected int or float '')))"
proof -
  define eof where
    "eof = \<lparr>tok_type = TT_EOF, tok_value = None,
            pos_start = Some (position_at fn_0 text_0 (length text_0)),
            pos_end = Some (position_at fn_0 text_0 (length text_0 + 1))\<rparr>"
  have tok: "make_tokens (Lexer_init fn_0 text_0) = Inr ([eof], None)"
    unfolding eof_def
    using tokens_loop_blanks [OF assms, of text_0 "[]" "[]" fn_0 "[]"]
    by (simp add: make_tokens_def Lexer_init_at tokens_loop_end Token_init_def
        Position_advance_def position_at_def)
  have init: "Parser_init [eof] = Inr \<lparr>tokens = [eof], tok_idx = 0, current_tok = Some eof\<rparr>"
    by (simp add: Parser_init_def Parser_advance_def)
  have "parse (5 + k) \<lparr>tokens = [eof], tok_idx = 0, current_tok = Some eof\<rparr>
          = Some (Inr (\<lparr>error = Some (InvalidSyntaxError (position_at fn_0 text_0 (length text_0))
                                         (position_at fn_0 text_0 (length text_0 + 1))
                                         ''Expected int or float ''),
                        node = None\<rparr>,
                       \<lparr>tokens = [eof], tok_idx = 0, current_tok = Some eof\<rparr>))"
    by (rule parse_only_eof) (simp_all add: eof_def)
  then have "run (5 + k) fn_0 text_0
           = Some (Inr (None,
                        Some (InvalidSyntaxError (position_at fn_0 text_0 (length text_0))
                                (position_at fn_0 text_0 (length text_0 + 1))
                                ''Expected int or float '')))"
    by (simp add: run_def tok init)
  with tok show ?thesis by (simp add: tokenize_def eof_def)
qed

theorem blank_input_witness:
  "set [CHR '' '', CHR 0x09] \<subseteq> {CHR '' '', CHR 0x09}
   \<and> tokenize ''<stdin>'' [CHR '' '', CHR 0x09]
       = Inr ([\<lparr>tok_type = TT_EOF, tok_value = None,
                pos_start = Some \<lparr>idx = 2, ln = 0, col = 2, fn = ''<stdin>'',
                                   ftxt = [CHR '' '', CHR 0x09]\<rparr>,
                pos_end = Some \<lparr>idx = 3, ln = 0, col = 3, fn = ''<stdin>'',
                                 ftxt = [CHR '' '', CHR 0x09]\<rparr>\<rparr>], None)
   \<and> run 5 ''<stdin>'' [CHR '' '', CHR 0x09]
       = Some (Inr (None,
                    Some \<lparr>err_pos_start = \<lparr>idx = 2, ln = 0, col = 2, fn = ''<stdin>'',
                                            ftxt = [CHR '' '', CHR 0x09]\<rparr>,
                          err_pos_end = \<lparr>idx = 3, ln = 0, col = 3, fn = ''<stdin>'',
                                          ftxt = [CHR '' '', CHR 0x09]\<rparr>,
                          error_name = ''Invalid Syntax'',
                          details = ''Expected int or float ''\<rparr>))"
proof -
  have h: "set [CHR '' '', CHR 0x09] \<subseteq> {CHR '' '', CHR 0x09}" by simp
  show ?thesis
    using h blank_input [OF h, of "''<stdin>''" 0]
    by (simp add: position_at_def InvalidSyntaxError_def)
qed

end
